theory Spec2Isabelle
  imports Main "HOL-Library.Multiset"
begin

section \<open>JavaScript values and objects\<close>

text \<open>
  The values that reach the gateway core: what \<^verbatim>\<open>JSON.parse\<close> produces (claims, request
  bodies), plus \<^verbatim>\<open>undefined\<close> and \<^verbatim>\<open>NaN\<close>. Numbers are the integral millisecond and
  second counts the code computes with; strings are lists of 8-bit code units.
  An object is its list of own properties in the order \<^verbatim>\<open>Object.keys\<close> enumerates them.
  The three tables the modules index with a string that comes from outside (the live
  tokens, the registry and the custom security checkers) are plain objects, so a read
  \<^verbatim>\<open>table[k]\<close> also finds what \<^verbatim>\<open>Object.prototype\<close> provides under \<open>k\<close>: \<open>objLookup\<close> below.
  On the parsed claims and the request (\<open>getProp\<close>) only own properties, array elements
  and lengths are modelled.
\<close>

datatype jsval =
    JUndefined
  | JNull
  | JBool bool
  | JNum int
  | JNaN
  | JStr string
  | JArr "jsval list"
  | JObj "(string \<times> jsval) list"

datatype error = TypeError | Error

type_synonym 'v jsobj = "(string \<times> 'v) list"

definition isDigit :: "char \<Rightarrow> bool" where
  "isDigit c = (48 \<le> (of_char c :: nat) \<and> (of_char c :: nat) \<le> 57)"

definition digitsToNat :: "string \<Rightarrow> nat" where
  "digitsToNat s = foldl (\<lambda>n c. 10 * n + ((of_char c :: nat) - 48)) 0 s"

text \<open>An array index is the canonical decimal form of an integer below \<open>2^32 - 1\<close>.\<close>

definition arrayIndex :: "string \<Rightarrow> nat option" where
  "arrayIndex s =
     (if s \<noteq> [] \<and> list_all isDigit s \<and> (s = ''0'' \<or> hd s \<noteq> CHR ''0'')
         \<and> digitsToNat s < 4294967295
      then Some (digitsToNat s) else None)"

definition objGet :: "'v jsobj \<Rightarrow> string \<Rightarrow> 'v option" where
  "objGet obj k = map_of obj k"

definition objKeys :: "'v jsobj \<Rightarrow> string list" where
  "objKeys obj = map fst obj"

definition objDelete :: "string \<Rightarrow> 'v jsobj \<Rightarrow> 'v jsobj" where
  "objDelete k obj = filter (\<lambda>kv. fst kv \<noteq> k) obj"

text \<open>
  The read \<^verbatim>\<open>obj[k]\<close> on a plain object: the own property, else the property of
  \<^verbatim>\<open>Object.prototype\<close> of that name (eleven functions, and under \<^verbatim>\<open>__proto__\<close> the prototype
  itself; all of them truthy, none a number or a string), else \<^verbatim>\<open>undefined\<close>.
\<close>

datatype 'v lookup = Absent | Own 'v | Inherited

definition protoNames :: "string list" where
  "protoNames =
     [''constructor'', ''__defineGetter__'', ''__defineSetter__'', ''hasOwnProperty'',
      ''__lookupGetter__'', ''__lookupSetter__'', ''isPrototypeOf'', ''propertyIsEnumerable'',
      ''toString'', ''valueOf'', ''__proto__'', ''toLocaleString'']"

definition objLookup :: "'v jsobj \<Rightarrow> string \<Rightarrow> 'v lookup" where
  "objLookup obj k =
     (case map_of obj k of
        Some v \<Rightarrow> Own v
      | None \<Rightarrow> if k \<in> set protoNames then Inherited else Absent)"

text \<open>
  A new own property goes after the existing ones, except that array-index keys are
  enumerated first, in ascending numeric order.
\<close>

fun insertIndexKey :: "nat \<Rightarrow> string \<Rightarrow> 'v \<Rightarrow> 'v jsobj \<Rightarrow> 'v jsobj" where
  "insertIndexKey i k v [] = [(k, v)]"
| "insertIndexKey i k v (kv # rest) =
     (case arrayIndex (fst kv) of
        Some j \<Rightarrow> if j < i then kv # insertIndexKey i k v rest else (k, v) # kv # rest
      | None \<Rightarrow> (k, v) # kv # rest)"

definition objSet :: "string \<Rightarrow> 'v \<Rightarrow> 'v jsobj \<Rightarrow> 'v jsobj" where
  "objSet k v obj =
     (if k \<in> set (map fst obj)
      then map (\<lambda>kv. if fst kv = k then (k, v) else kv) obj
      else (case arrayIndex k of
              None \<Rightarrow> obj @ [(k, v)]
            | Some i \<Rightarrow> insertIndexKey i k v obj))"

text \<open>
  The assignment \<^verbatim>\<open>obj[k] = v\<close> of a number or a string to a plain object. Under the
  key \<^verbatim>\<open>__proto__\<close> it reaches the setter of \<^verbatim>\<open>Object.prototype\<close>, which ignores such a
  value, unless the object has an own property of that name.
\<close>

definition assignProp :: "string \<Rightarrow> 'v \<Rightarrow> 'v jsobj \<Rightarrow> 'v jsobj" where
  "assignProp k v obj =
     (if k = ''__proto__'' \<and> k \<notin> set (map fst obj) then obj else objSet k v obj)"

text \<open>
  \<^verbatim>\<open>{...a, ...b}\<close>: the properties of \<open>b\<close> are defined on \<open>a\<close> in order, as own
  properties whatever their name.
\<close>

definition objSpread :: "'v jsobj \<Rightarrow> 'v jsobj \<Rightarrow> 'v jsobj" where
  "objSpread a b = foldl (\<lambda>acc kv. objSet (fst kv) (snd kv) acc) a b"

text \<open>
  Property read \<^verbatim>\<open>v[k]\<close>: a \<^verbatim>\<open>TypeError\<close> on \<^verbatim>\<open>null\<close> and \<^verbatim>\<open>undefined\<close>, the own
  property of an object, an element or the length of an array or string, and
  \<^verbatim>\<open>undefined\<close> otherwise.
\<close>

fun getProp :: "jsval \<Rightarrow> string \<Rightarrow> error + jsval" where
  "getProp JUndefined k = Inl TypeError"
| "getProp JNull k = Inl TypeError"
| "getProp (JObj kvs) k = Inr (case map_of kvs k of None \<Rightarrow> JUndefined | Some v \<Rightarrow> v)"
| "getProp (JArr xs) k =
     Inr (case arrayIndex k of
            Some i \<Rightarrow> if i < length xs then xs ! i else JUndefined
          | None \<Rightarrow> if k = ''length'' then JNum (int (length xs)) else JUndefined)"
| "getProp (JStr s) k =
     Inr (case arrayIndex k of
            Some i \<Rightarrow> if i < length s then JStr [s ! i] else JUndefined
          | None \<Rightarrow> if k = ''length'' then JNum (int (length s)) else JUndefined)"
| "getProp v k = Inr JUndefined"

fun truthy :: "jsval \<Rightarrow> bool" where
  "truthy JUndefined = False"
| "truthy JNull = False"
| "truthy (JBool b) = b"
| "truthy (JNum n) = (n \<noteq> 0)"
| "truthy JNaN = False"
| "truthy (JStr s) = (s \<noteq> [])"
| "truthy v = True"

text \<open>\<^verbatim>\<open>s.split(c)\<close> with a one-character separator.\<close>

fun splitOn :: "char \<Rightarrow> string \<Rightarrow> string list" where
  "splitOn c [] = [[]]"
| "splitOn c (x # xs) =
     (if x = c then [] # splitOn c xs
      else (case splitOn c xs of [] \<Rightarrow> [[x]] | p # ps \<Rightarrow> (x # p) # ps))"




section \<open>The platform\<close>

text \<open>
  The library functions the two modules call, and the repository's \<^verbatim>\<open>utils.js\<close>, whose
  functions are taken as given. Every definition below takes them as a
  parameter, so every theorem holds whatever they compute.
  \<^item> \<open>base64Decode s\<close> is \<^verbatim>\<open>Buffer.from(s, "base64").toString("utf8")\<close>;
  \<^item> \<open>jsonParse\<close> is \<^verbatim>\<open>JSON.parse\<close>, \<open>None\<close> when it throws;
  \<^item> \<open>base64Encode s\<close> is \<^verbatim>\<open>Buffer.from(s).toString("base64")\<close>;
  \<^item> \<open>hmacSha256Hex key msg\<close> is
    \<^verbatim>\<open>crypto.createHmac("sha256", key).update(msg).digest("hex")\<close>;
  \<^item> \<open>parseInt\<close> and \<open>toNumber\<close> give \<open>None\<close> for \<^verbatim>\<open>NaN\<close>; \<open>toNumber\<close> is asked only
    about strings, arrays and objects;
  \<^item> \<open>looseEq\<close> is \<^verbatim>\<open>==\<close> where it coerces (number with string, boolean with another
    type, object with primitive);
  \<^item> \<open>toStringJS\<close> is the conversion a template literal applies to a value;
  \<^item> \<open>urlPathname u\<close> is \<^verbatim>\<open>new URL(u).pathname\<close>, \<open>None\<close> when the constructor throws;
  \<^item> \<open>urlSearch e\<close> is \<^verbatim>\<open>new URL(e, "http://dummyhost/").search\<close>, likewise;
  \<^item> \<open>querystringParse\<close>, \<open>pathResolve\<close>, \<open>pathBasename\<close> are the functions of the
    modules \<^verbatim>\<open>querystring\<close> and \<^verbatim>\<open>path\<close>;
  \<^item> \<open>escapedSplit\<close> is \<^verbatim>\<open>utils.escapedSplit\<close>;
  \<^item> \<open>inheritedText k\<close> is the string form of the property \<open>k\<close> of \<^verbatim>\<open>Object.prototype\<close>.
\<close>

record platform =
  base64Decode :: "string \<Rightarrow> string"
  jsonParse :: "string \<Rightarrow> jsval option"
  base64Encode :: "string \<Rightarrow> string"
  jsonStringify :: "jsval \<Rightarrow> string"
  hmacSha256Hex :: "string \<Rightarrow> string \<Rightarrow> string"
  parseInt :: "jsval \<Rightarrow> int option"
  toNumber :: "jsval \<Rightarrow> int option"
  looseEq :: "jsval \<Rightarrow> jsval \<Rightarrow> bool"
  toStringJS :: "jsval \<Rightarrow> string"
  toLowerCase :: "string \<Rightarrow> string"
  trim :: "string \<Rightarrow> string"
  escapedSplit :: "string \<Rightarrow> string \<Rightarrow> string list"
  urlPathname :: "string \<Rightarrow> string option"
  urlSearch :: "string \<Rightarrow> string option"
  querystringParse :: "string \<Rightarrow> string jsobj"
  pathResolve :: "string \<Rightarrow> string"
  pathBasename :: "string \<Rightarrow> string"
  inheritedText :: "string \<Rightarrow> string"

text \<open>\<^verbatim>\<open>n > v\<close> for a number \<open>n\<close>: false whenever \<open>v\<close> converts to \<^verbatim>\<open>NaN\<close>.\<close>

fun gtNumber :: "platform \<Rightarrow> int \<Rightarrow> jsval \<Rightarrow> bool" where
  "gtNumber P n JUndefined = False"
| "gtNumber P n JNull = (0 < n)"
| "gtNumber P n (JBool b) = ((if b then 1 else 0) < n)"
| "gtNumber P n (JNum k) = (k < n)"
| "gtNumber P n JNaN = False"
| "gtNumber P n v = (case toNumber P v of None \<Rightarrow> False | Some k \<Rightarrow> k < n)"

text \<open>
  \<^verbatim>\<open>a != b\<close>. Two objects are equal only when they are the same object; the claims
  are freshly parsed, so an object or array among them equals no other object.
\<close>

fun isObject :: "jsval \<Rightarrow> bool" where
  "isObject (JArr xs) = True"
| "isObject (JObj kvs) = True"
| "isObject v = False"

fun isNullish :: "jsval \<Rightarrow> bool" where
  "isNullish JUndefined = True"
| "isNullish JNull = True"
| "isNullish v = False"

definition looseNotEqual :: "platform \<Rightarrow> jsval \<Rightarrow> jsval \<Rightarrow> bool" where
  "looseNotEqual P a b =
     (if isNullish a \<or> isNullish b then \<not> (isNullish a \<and> isNullish b)
      else if a = JNaN \<or> b = JNaN then True
      else if isObject a \<and> isObject b then True
      else (case (a, b) of
              (JNum x, JNum y) \<Rightarrow> x \<noteq> y
            | (JStr x, JStr y) \<Rightarrow> x \<noteq> y
            | (JBool x, JBool y) \<Rightarrow> x \<noteq> y
            | _ \<Rightarrow> \<not> looseEq P a b))"

text \<open>\<^verbatim>\<open>xs.includes(v)\<close> for an array of strings.\<close>

definition includesStr :: "string list \<Rightarrow> jsval \<Rightarrow> bool" where
  "includesStr xs v = (case v of JStr s \<Rightarrow> s \<in> set xs | _ \<Rightarrow> False)"

text \<open>A string inside a template literal; \<^verbatim>\<open>undefined\<close> prints as its name.\<close>

definition templateStr :: "string option \<Rightarrow> string" where
  "templateStr s = (case s of None \<Rightarrow> ''undefined'' | Some t \<Rightarrow> t)"

section \<open>jwttokenmanager.js\<close>

text \<open>
  The live-token table is the object stored under \<^verbatim>\<open>API_TOKEN_CLUSTERMEM_KEY\<close>: token
  to the \<^verbatim>\<open>Date.now()\<close> of its last access. Each function takes the table it reads
  from the cluster memory and returns the one it leaves there. A function that throws
  returns \<open>Inl\<close>; the table after an uncaught exception is not modelled. Each reading
  of \<^verbatim>\<open>Date.now()\<close> is an argument. Logging is left out.
\<close>

record reasonOut =
  reason :: "string option"
  code :: "int option"

text \<open>
  A parsed registry entry. \<open>rawpathname\<close> is \<open>None\<close> when it is not a string: the entry
  read from the registry was an inherited property, which \<^verbatim>\<open>_getAPIRegEntryAsURL\<close>
  stores there as it is.
\<close>

record apiregentry =
  query :: "string jsobj"
  rawpathname :: "string option"
  search :: string
  path :: string

definition BASE_64_HEADER :: string where
  "BASE_64_HEADER = ''eyJhbGciOiJIUzI1NiIsInR5cCI6IkpXVCJ9''"

definition reject :: "reasonOut \<Rightarrow> string \<Rightarrow> reasonOut" where
  "reject rsn msg = rsn\<lparr>reason := Some msg, code := Some 403\<rparr>"

text \<open>
  The \<^verbatim>\<open>try\<close> block of \<^verbatim>\<open>checkToken\<close> and \<^verbatim>\<open>getClaims\<close>: a token with no second segment
  makes \<^verbatim>\<open>Buffer.from(undefined, "base64")\<close> throw, which the \<^verbatim>\<open>catch\<close> takes like a
  parse error.
\<close>

definition parseClaims :: "platform \<Rightarrow> string \<Rightarrow> jsval option" where
  "parseClaims P token =
     (case splitOn CHR ''.'' token of
        _ # seg # _ \<Rightarrow> jsonParse P (base64Decode P seg)
      | _ \<Rightarrow> None)"

definition updateLastAccessOrAddToken :: "int \<Rightarrow> int jsobj \<Rightarrow> string \<Rightarrow> int jsobj" where
  "updateLastAccessOrAddToken now activeTokens token = assignProp token now activeTokens"

text \<open>The loop over \<^verbatim>\<open>checkClaims.split(",")\<close>; the result is the first key that differs.\<close>

fun checkClaimsLoop ::
  "platform \<Rightarrow> jsval \<Rightarrow> jsval \<Rightarrow> string list \<Rightarrow> error + (string \<times> jsval \<times> jsval) option" where
  "checkClaimsLoop P claims req [] = Inr None"
| "checkClaimsLoop P claims req (key # keys) =
     (case getProp claims key of
        Inl e \<Rightarrow> Inl e
      | Inr cv \<Rightarrow>
          (case getProp req key of
             Inl e \<Rightarrow> Inl e
           | Inr rv \<Rightarrow>
               if looseNotEqual P cv rv then Inr (Some (key, cv, rv))
               else checkClaimsLoop P claims req keys))"

definition accessLevelMismatch :: "platform \<Rightarrow> string option \<Rightarrow> jsval \<Rightarrow> bool" where
  "accessLevelMismatch P accessNeeded sub =
     (case accessNeeded of
        None \<Rightarrow> False
      | Some a \<Rightarrow> a \<noteq> [] \<and> toLowerCase P a \<noteq> ''true''
                  \<and> \<not> includesStr (escapedSplit P a '','') sub)"

definition runCheckClaims ::
  "platform \<Rightarrow> string option \<Rightarrow> jsval \<Rightarrow> jsval \<Rightarrow> error + (string \<times> jsval \<times> jsval) option" where
  "runCheckClaims P checkClaims claims req =
     (case checkClaims of
        None \<Rightarrow> Inr None
      | Some cc \<Rightarrow> if cc = [] then Inr None
                   else checkClaimsLoop P claims req (splitOn CHR '','' cc))"

text \<open>
  \<^verbatim>\<open>checkToken\<close>. \<open>now\<close> is the clock read by the expiry test and \<open>nowUpd\<close> the clock
  read by \<^verbatim>\<open>updateLastAccessOrAddToken\<close>; \<open>accessNeeded\<close> and \<open>checkClaims\<close> are \<open>None\<close> when
  the caller passes \<^verbatim>\<open>undefined\<close>; \<open>rsn\<close> is the reason object of the caller, whose
  fields the function sets. The read of \<^verbatim>\<open>claims.sub\<close> is written before the test that
  uses it: it cannot throw where the read of \<^verbatim>\<open>claims.expiryInterval\<close> has not.
  \<open>checkClaimsOfToken\<close> is the function from its \<^verbatim>\<open>try\<close> block on; its last argument is
  the last access, \<open>None\<close> when \<^verbatim>\<open>activeTokens[token]\<close> is an inherited property and not
  a number, so that the difference to the clock is \<^verbatim>\<open>NaN\<close> and exceeds nothing.
\<close>

definition checkClaimsOfToken ::
  "platform \<Rightarrow> int \<Rightarrow> int \<Rightarrow> int jsobj \<Rightarrow> string \<Rightarrow> reasonOut \<Rightarrow> string option \<Rightarrow> string option
     \<Rightarrow> jsval \<Rightarrow> int option \<Rightarrow> error + (bool \<times> reasonOut \<times> int jsobj)" where
  "checkClaimsOfToken P now nowUpd activeTokens token rsn accessNeeded checkClaims req lastAccess =
     (case parseClaims P token of
        None \<Rightarrow>
          Inr (False, reject rsn ''JWT Token Error, claims are not parseable'', activeTokens)
      | Some claims \<Rightarrow>
          (case getProp claims ''expiryInterval'' of
             Inl e \<Rightarrow> Inl e
           | Inr expiryInterval \<Rightarrow>
               if (case lastAccess of
                     None \<Rightarrow> False
                   | Some la \<Rightarrow> gtNumber P (now - la) expiryInterval)
               then Inr (False, reject rsn ''JWT Token Error, expired'', activeTokens)
               else
               (case getProp claims ''sub'' of
                  Inl e \<Rightarrow> Inl e
                | Inr sub \<Rightarrow>
                    if accessLevelMismatch P accessNeeded sub
                    then Inr (False,
                           reject rsn (''JWT Token Error, sub:claims doesn't match needed access level. Claims are ''
                             @ jsonStringify P claims @ '' and needed access is ''
                             @ templateStr accessNeeded @ ''.''),
                           activeTokens)
                    else
                    (case runCheckClaims P checkClaims claims req of
                       Inl e \<Rightarrow> Inl e
                     | Inr (Some (key, cv, rv)) \<Rightarrow>
                         Inr (False,
                           reject rsn (''JWT Token Error, claims check failed. Claims keys is ''
                             @ key @ '', found JWT claim '' @ toStringJS P cv
                             @ '', request claims '' @ toStringJS P rv @ ''.''),
                           activeTokens)
                     | Inr None \<Rightarrow>
                         Inr (True, rsn,
                           updateLastAccessOrAddToken nowUpd activeTokens token)))))"

definition checkToken ::
  "platform \<Rightarrow> int \<Rightarrow> int \<Rightarrow> int jsobj \<Rightarrow> string \<Rightarrow> reasonOut \<Rightarrow> string option \<Rightarrow> string option
     \<Rightarrow> jsval \<Rightarrow> error + (bool \<times> reasonOut \<times> int jsobj)" where
  "checkToken P now nowUpd activeTokens token rsn accessNeeded checkClaims req =
     (case objLookup activeTokens token of
        Absent \<Rightarrow>
          Inr (False, reject rsn ''JWT Token Error, no last access found'', activeTokens)
      | Own lastAccess \<Rightarrow>
          if lastAccess = 0
          then Inr (False, reject rsn ''JWT Token Error, no last access found'', activeTokens)
          else checkClaimsOfToken P now nowUpd activeTokens token rsn accessNeeded checkClaims req
                 (Some lastAccess)
      | Inherited \<Rightarrow>
          checkClaimsOfToken P now nowUpd activeTokens token rsn accessNeeded checkClaims req None)"

definition releaseToken :: "int jsobj \<Rightarrow> string \<Rightarrow> int jsobj" where
  "releaseToken activeTokens token =
     (if token \<noteq> []
         \<and> (case objLookup activeTokens token of
               Absent \<Rightarrow> False | Own t \<Rightarrow> t \<noteq> 0 | Inherited \<Rightarrow> True)
      then objDelete token activeTokens
      else activeTokens)"


definition getClaims :: "platform \<Rightarrow> string \<Rightarrow> jsval" where
  "getClaims P token =
     (if token = [] then JObj []
      else (case parseClaims P token of None \<Rightarrow> JObj [] | Some claims \<Rightarrow> claims))"

text \<open>
  \<^verbatim>\<open>_cleanTokens\<close>. The loop runs over the keys \<^verbatim>\<open>Object.keys\<close> returned before it
  started; \<open>nowAt token\<close> is the \<^verbatim>\<open>Date.now()\<close> read when \<open>token\<close> is visited. A listener
  is known by its identity; the calls made to the listeners are returned in order, each
  with the event name and the token it was given. The keys are own properties; for a
  key that is not, the difference of the clock and \<^verbatim>\<open>activeTokens[token]\<close> is \<^verbatim>\<open>NaN\<close>
  whether the read finds nothing or an inherited property, and the token is passed over.
\<close>

fun cleanTokensLoop ::
  "platform \<Rightarrow> (string \<Rightarrow> int) \<Rightarrow> 'l list \<Rightarrow> string list \<Rightarrow> int jsobj
     \<Rightarrow> ('l \<times> string \<times> string) list \<Rightarrow> error + (int jsobj \<times> ('l \<times> string \<times> string) list)" where
  "cleanTokensLoop P nowAt listeners [] activeTokens calls = Inr (activeTokens, calls)"
| "cleanTokensLoop P nowAt listeners (token # rest) activeTokens calls =
     (case getProp (getClaims P token) ''expiryInterval'' of
        Inl e \<Rightarrow> Inl e
      | Inr expiryInterval \<Rightarrow>
          (case objGet activeTokens token of
             None \<Rightarrow> cleanTokensLoop P nowAt listeners rest activeTokens calls
           | Some lastAccess \<Rightarrow>
               if gtNumber P (nowAt token - lastAccess) expiryInterval
               then cleanTokensLoop P nowAt listeners rest (objDelete token activeTokens)
                      (calls @ map (\<lambda>l. (l, ''token_expireed'', token)) listeners)
               else cleanTokensLoop P nowAt listeners rest activeTokens calls))"

definition cleanTokens ::
  "platform \<Rightarrow> (string \<Rightarrow> int) \<Rightarrow> 'l list \<Rightarrow> int jsobj
     \<Rightarrow> error + (int jsobj \<times> ('l \<times> string \<times> string) list)" where
  "cleanTokens P nowAt listeners activeTokens =
     cleanTokensLoop P nowAt listeners (objKeys activeTokens) activeTokens []"

text \<open>
  \<^verbatim>\<open>createSignedJWTToken\<close>. \<open>conf\<close> is the module's configuration object
  (\<^verbatim>\<open>undefined\<close> before \<^verbatim>\<open>initSync\<close>), \<open>timenow\<close> the first reading of the clock, \<open>jti\<close>
  and \<open>key\<close> the two draws of \<^verbatim>\<open>crypto.randomBytes\<close> in hexadecimal, \<open>nowReg\<close> the
  reading of the clock when the token is entered in the table. \<^verbatim>\<open>TOKENMANCONF\<close> is a
  string, so \<^verbatim>\<open>TOKENMANCONF.iss\<close> is \<^verbatim>\<open>undefined\<close> and the issuer is always the default.
\<close>

definition numOrNaN :: "int option \<Rightarrow> jsval" where
  "numOrNaN n = (case n of None \<Rightarrow> JNaN | Some k \<Rightarrow> JNum k)"

definition buildClaims ::
  "platform \<Rightarrow> jsval \<Rightarrow> int \<Rightarrow> string \<Rightarrow> jsval jsobj \<Rightarrow> error + jsval jsobj" where
  "buildClaims P conf timenow jti jwtproperties =
     (let timenowEPOCH = (timenow + 500) div 1000;
          given = (case objGet jwtproperties ''expiryInterval'' of
                     None \<Rightarrow> JUndefined | Some v \<Rightarrow> v)
      in (case (if truthy given then Inr given else getProp conf ''expiryInterval'') of
            Inl e \<Rightarrow> Inl e
          | Inr chosen \<Rightarrow>
              (let expiryInterval = parseInt P chosen
               in Inr (objSpread
                    [(''iss'', JStr ''Monkshu''),
                     (''iat'', JNum timenowEPOCH),
                     (''iatms'', JNum timenow),
                     (''nbf'', JNum timenowEPOCH),
                     (''exp'', numOrNaN (map_option (\<lambda>e. timenowEPOCH + e) expiryInterval)),
                     (''jti'', JStr jti),
                     (''expiryInterval'', numOrNaN expiryInterval)]
                    jwtproperties))))"

definition tokenClaimHeader :: "string \<Rightarrow> string" where
  "tokenClaimHeader claimB64 = claimB64 @ ''.'' @ BASE_64_HEADER"

definition createSignedJWTToken ::
  "platform \<Rightarrow> jsval \<Rightarrow> int \<Rightarrow> string \<Rightarrow> string \<Rightarrow> int \<Rightarrow> int jsobj \<Rightarrow> jsval jsobj
     \<Rightarrow> error + (string \<times> int jsobj)" where
  "createSignedJWTToken P conf timenow jti key nowReg activeTokens jwtproperties =
     (case buildClaims P conf timenow jti jwtproperties of
        Inl e \<Rightarrow> Inl e
      | Inr claims \<Rightarrow>
          (let claimB64 = base64Encode P (jsonStringify P (JObj claims));
               sig64 = hmacSha256Hex P key (tokenClaimHeader claimB64);
               token = BASE_64_HEADER @ ''.'' @ claimB64 @ ''.'' @ sig64
           in Inr (token, updateLastAccessOrAddToken nowReg activeTokens token)))"

section \<open>apiregistry.js\<close>

text \<open>
  The registry is the object stored under \<^verbatim>\<open>API_REG_DISTM_KEY\<close>: endpoint path to the
  configured target string. An extension module is what \<^verbatim>\<open>require\<close> returned for it,
  tagged with the name of its file. Its function takes the arguments the registry hands
  on as they are (request, headers, server object: \<open>ctx\<close>) and the state it may change
  (the token table, the response headers), and returns the new state, or \<open>Inl\<close> when
  it throws.
\<close>

record 'f extension =
  conf_modulename :: "string option"
  impl :: 'f

type_synonym ('c, 's) securitychecker =
  "(apiregentry \<Rightarrow> string \<Rightarrow> 'c \<Rightarrow> reasonOut \<Rightarrow> 's \<Rightarrow> error + (bool \<times> reasonOut \<times> 's)) extension"

type_synonym ('d, 'c, 's) coder =
  "(apiregentry \<Rightarrow> string \<Rightarrow> 'd \<Rightarrow> 'c \<Rightarrow> 's \<Rightarrow> error + ('d \<times> 's)) extension"

type_synonym ('c, 's) headermanager =
  "(apiregentry \<Rightarrow> string \<Rightarrow> 'c \<Rightarrow> 's \<Rightarrow> error + 's) extension"

text \<open>What \<^verbatim>\<open>decodeIncomingData\<close> and \<^verbatim>\<open>encodeResponse\<close> return.\<close>

datatype 'd orFalse = RetFalse | Ret 'd

definition getAPIRegEntryAsURL :: "platform \<Rightarrow> string \<Rightarrow> error + apiregentry" where
  "getAPIRegEntryAsURL P endPoint =
     (case urlSearch P endPoint of
        None \<Rightarrow> Inl TypeError
      | Some srch \<Rightarrow>
          (let raw = (if srch \<noteq> []
                      then (if CHR ''?'' \<in> set endPoint
                            then takeWhile (\<lambda>c. c \<noteq> CHR ''?'') endPoint else [])
                      else endPoint)
           in Inr \<lparr>query = querystringParse P (if srch \<noteq> [] then tl srch else []),
                   rawpathname = Some raw, search = srch, path = raw @ srch\<rparr>))"

text \<open>
  \<^verbatim>\<open>_getAPIRegEntryAsURL\<close> on an inherited property of the registry: the URL is parsed
  from its string form; with a query in it the call of \<^verbatim>\<open>substring\<close> on the value throws,
  without one the value itself becomes \<^verbatim>\<open>rawpathname\<close>.
\<close>

definition getAPIRegEntryAsURL_inherited :: "platform \<Rightarrow> string \<Rightarrow> error + apiregentry" where
  "getAPIRegEntryAsURL_inherited P k =
     (case urlSearch P (inheritedText P k) of
        None \<Rightarrow> Inl TypeError
      | Some srch \<Rightarrow>
          if srch \<noteq> [] then Inl TypeError
          else Inr \<lparr>query = querystringParse P [], rawpathname = None, search = srch,
                    path = inheritedText P k @ srch\<rparr>)"

text \<open>
  The common opening of the request functions: the path of the URL, the registry's
  entry for it, and the parsed entry. \<open>Inr None\<close> is the branch \<^verbatim>\<open>if (!apiregentry)\<close>.
\<close>

definition lookupEntry ::
  "platform \<Rightarrow> string jsobj \<Rightarrow> string \<Rightarrow> error + (string \<times> apiregentry) option" where
  "lookupEntry P apireg url =
     (case urlPathname P url of
        None \<Rightarrow> Inl TypeError
      | Some endPoint \<Rightarrow>
          (case objLookup apireg endPoint of
             Absent \<Rightarrow> Inr None
           | Own raw \<Rightarrow>
               if raw = [] then Inr None
               else (case getAPIRegEntryAsURL P raw of
                       Inl e \<Rightarrow> Inl e
                     | Inr entry \<Rightarrow> Inr (Some (endPoint, entry)))
           | Inherited \<Rightarrow>
               (case getAPIRegEntryAsURL_inherited P endPoint of
                  Inl e \<Rightarrow> Inl e
                | Inr entry \<Rightarrow> Inr (Some (endPoint, entry)))))"

definition getAPI :: "platform \<Rightarrow> string jsobj \<Rightarrow> string \<Rightarrow> error + string option" where
  "getAPI P apireg url =
     (case lookupEntry P apireg url of
        Inl e \<Rightarrow> Inl e
      | Inr None \<Rightarrow> Inr None
      | Inr (Some (endPoint, entry)) \<Rightarrow>
          (case rawpathname entry of
             None \<Rightarrow> Inl TypeError
           | Some raw \<Rightarrow> Inr (Some (pathResolve P raw))))"

definition listAPIs :: "string jsobj \<Rightarrow> string list" where
  "listAPIs apireg = objKeys apireg"

fun decodeLoop ::
  "('d, 'c, 's) coder list \<Rightarrow> apiregentry \<Rightarrow> string \<Rightarrow> 'd \<Rightarrow> 'c \<Rightarrow> 's \<Rightarrow> error + ('d \<times> 's)" where
  "decodeLoop [] entry url decoded ctx st = Inr (decoded, st)"
| "decodeLoop (decoderThis # rest) entry url decoded ctx st =
     (case impl decoderThis entry url decoded ctx st of
        Inl e \<Rightarrow> Inl e
      | Inr (decoded', st') \<Rightarrow> decodeLoop rest entry url decoded' ctx st')"

definition decodeIncomingData ::
  "platform \<Rightarrow> string jsobj \<Rightarrow> ('d, 'c, 's) coder list \<Rightarrow> string \<Rightarrow> 'd \<Rightarrow> 'c \<Rightarrow> 's
     \<Rightarrow> error + ('d orFalse \<times> 's)" where
  "decodeIncomingData P apireg decoders url data ctx st =
     (case lookupEntry P apireg url of
        Inl e \<Rightarrow> Inl e
      | Inr None \<Rightarrow> Inr (RetFalse, st)
      | Inr (Some (endPoint, entry)) \<Rightarrow>
          (case decodeLoop decoders entry url data ctx st of
             Inl e \<Rightarrow> Inl e
           | Inr (decoded, st') \<Rightarrow> Inr (Ret decoded, st')))"

definition encodeResponse ::
  "platform \<Rightarrow> string jsobj \<Rightarrow> ('d, 'c, 's) coder list \<Rightarrow> string \<Rightarrow> 'd \<Rightarrow> 'c \<Rightarrow> 's
     \<Rightarrow> error + ('d orFalse \<times> 's)" where
  "encodeResponse P apireg encoders url respObj ctx st =
     (case lookupEntry P apireg url of
        Inl e \<Rightarrow> Inl e
      | Inr None \<Rightarrow> Inr (RetFalse, st)
      | Inr (Some (endPoint, entry)) \<Rightarrow>
          (case decodeLoop encoders entry endPoint respObj ctx st of
             Inl e \<Rightarrow> Inl e
           | Inr (encoded, st') \<Rightarrow> Inr (Ret encoded, st')))"

fun headerLoop ::
  "('c, 's) headermanager list \<Rightarrow> apiregentry \<Rightarrow> string \<Rightarrow> 'c \<Rightarrow> 's \<Rightarrow> error + 's" where
  "headerLoop [] entry endPoint ctx responseHeaders = Inr responseHeaders"
| "headerLoop (headermanagerThis # rest) entry endPoint ctx responseHeaders =
     (case impl headermanagerThis entry endPoint ctx responseHeaders of
        Inl e \<Rightarrow> Inl e
      | Inr responseHeaders' \<Rightarrow> headerLoop rest entry endPoint ctx responseHeaders')"

definition injectResponseHeaders ::
  "platform \<Rightarrow> string jsobj \<Rightarrow> ('c, 's) headermanager list \<Rightarrow> string \<Rightarrow> 'c \<Rightarrow> 's \<Rightarrow> error + 's" where
  "injectResponseHeaders P apireg headermanagers url ctx responseHeaders =
     (case lookupEntry P apireg url of
        Inl e \<Rightarrow> Inl e
      | Inr None \<Rightarrow> Inr responseHeaders
      | Inr (Some (endPoint, entry)) \<Rightarrow> headerLoop headermanagers entry endPoint ctx responseHeaders)"

text \<open>
  The loop of \<^verbatim>\<open>checkSecurity\<close> over \<^verbatim>\<open>allSecurityCheckers\<close>. An element is \<open>Absent\<close>
  where the custom checker map gives \<^verbatim>\<open>undefined\<close> for the name: the test
  \<^verbatim>\<open>securitycheckerThis && ...\<close> passes over it. It is \<open>Inherited\<close> where the name is that
  of a property of \<^verbatim>\<open>Object.prototype\<close>: the value passes the test, has no
  \<^verbatim>\<open>checkSecurity\<close>, and the call throws. \<open>i\<close> is the position of the head of the list in
  \<^verbatim>\<open>allSecurityCheckers\<close>; the last component of the result lists the positions of the
  checkers that were called, in order.
\<close>

fun securityLoop ::
  "nat \<Rightarrow> ('c, 's) securitychecker lookup list \<Rightarrow> apiregentry \<Rightarrow> string \<Rightarrow> 'c \<Rightarrow> reasonOut \<Rightarrow> 's
     \<Rightarrow> nat list \<Rightarrow> error + (bool \<times> reasonOut \<times> 's \<times> nat list)" where
  "securityLoop i [] entry endPoint ctx rsn st called = Inr (True, rsn, st, called)"
| "securityLoop i (Absent # rest) entry endPoint ctx rsn st called =
     securityLoop (Suc i) rest entry endPoint ctx rsn st called"
| "securityLoop i (Inherited # rest) entry endPoint ctx rsn st called = Inl TypeError"
| "securityLoop i (Own securitycheckerThis # rest) entry endPoint ctx rsn st called =
     (case impl securitycheckerThis entry endPoint ctx rsn st of
        Inl e \<Rightarrow> Inl e
      | Inr (ok, rsn', st') \<Rightarrow>
          if ok then securityLoop (Suc i) rest entry endPoint ctx rsn' st' (called @ [i])
          else Inr (False,
                 rsn'\<lparr>reason := Some (templateStr (reason rsn') @ '' ---- Failed on: ''
                                        @ templateStr (conf_modulename securitycheckerThis))\<rparr>,
                 st', called @ [i]))"

definition allSecurityCheckers ::
  "platform \<Rightarrow> ('c, 's) securitychecker list \<Rightarrow> ('c, 's) securitychecker jsobj \<Rightarrow> apiregentry
     \<Rightarrow> ('c, 's) securitychecker lookup list" where
  "allSecurityCheckers P securitycheckers CUSTOM_SECURITY_CHECKERS entry =
     map Own securitycheckers @
     (case objGet (query entry) ''customSecurity'' of
        None \<Rightarrow> []
      | Some customSecurity \<Rightarrow>
          if customSecurity = [] then []
          else map (objLookup CUSTOM_SECURITY_CHECKERS) (escapedSplit P customSecurity '',''))"

text \<open>
  \<^verbatim>\<open>checkSecurity\<close>. For an unregistered endpoint the source assigns a new object to its
  parameter \<^verbatim>\<open>reason\<close>; the object the caller passed is not touched, so the reason
  returned here is the one that came in.
\<close>

definition checkSecurity ::
  "platform \<Rightarrow> string jsobj \<Rightarrow> ('c, 's) securitychecker list \<Rightarrow> ('c, 's) securitychecker jsobj
     \<Rightarrow> string \<Rightarrow> 'c \<Rightarrow> reasonOut \<Rightarrow> 's \<Rightarrow> error + (bool \<times> reasonOut \<times> 's \<times> nat list)" where
  "checkSecurity P apireg securitycheckers CUSTOM_SECURITY_CHECKERS url ctx rsn st =
     (case lookupEntry P apireg url of
        Inl e \<Rightarrow> Inl e
      | Inr None \<Rightarrow> Inr (False, rsn, st, [])
      | Inr (Some (endPoint, entry)) \<Rightarrow>
          securityLoop 0 (allSecurityCheckers P securitycheckers CUSTOM_SECURITY_CHECKERS entry)
            entry endPoint ctx rsn st [])"

text \<open>
  The positions of the modules in a chain whose first position is \<open>i\<close>, and the result
  of a check without the list of positions called.
\<close>

fun definedPositions :: "nat \<Rightarrow> 'a lookup list \<Rightarrow> nat list" where
  "definedPositions i [] = []"
| "definedPositions i (Own c # rest) = i # definedPositions (Suc i) rest"
| "definedPositions i (x # rest) = definedPositions (Suc i) rest"


text \<open>
  \<^verbatim>\<open>addAPI\<close> and \<^verbatim>\<open>deleteAPI\<close>. Their third parameter is named \<^verbatim>\<open>app\<close> and hides the
  module \<^verbatim>\<open>app.js\<close> inside the function, so \<^verbatim>\<open>app.getApps()\<close> is a call on the argument:
  a \<^verbatim>\<open>TypeError\<close> for an application name and for \<^verbatim>\<open>undefined\<close>. Only an argument that is
  itself an object with a \<^verbatim>\<open>getApps\<close> method gets further; \<^verbatim>\<open>apps[app]\<close> is then
  \<^verbatim>\<open>undefined\<close> (the catalogue is an array, the key the object's string form), and the
  entry is stored as given and persisted in the core registry file.
  \<open>files\<close> maps a file to the object its JSON text parses to, \<open>None\<close> when reading or
  parsing fails. In \<^verbatim>\<open>deleteAPI\<close> the test \<^verbatim>\<open>if (apireg[path])\<close> also holds of an inherited
  property, for which \<^verbatim>\<open>delete\<close> then removes nothing, as when the test fails.
\<close>

datatype appArg = AppName string | AppUndefined | AppObject "(string \<times> string) list"

definition callGetApps :: "appArg \<Rightarrow> error + (string \<times> string) list" where
  "callGetApps app =
     (case app of AppName n \<Rightarrow> Inl TypeError | AppUndefined \<Rightarrow> Inl TypeError
      | AppObject apps \<Rightarrow> Inr apps)"

definition addAPI ::
  "string \<Rightarrow> string jsobj \<Rightarrow> (string \<rightharpoonup> string jsobj) \<Rightarrow> string \<Rightarrow> string \<Rightarrow> appArg
     \<Rightarrow> error + (string jsobj \<times> (string \<rightharpoonup> string jsobj))" where
  "addAPI API_REGISTRY apireg files pth apiregentry app =
     (case callGetApps app of
        Inl e \<Rightarrow> Inl e
      | Inr apps \<Rightarrow>
          (let apireg' = assignProp pth apiregentry apireg
           in (case files API_REGISTRY of
                 None \<Rightarrow> Inl Error
               | Some regFileObj \<Rightarrow>
                   Inr (apireg', files(API_REGISTRY \<mapsto> assignProp pth apiregentry regFileObj)))))"

definition deleteAPI ::
  "string \<Rightarrow> string jsobj \<Rightarrow> (string \<rightharpoonup> string jsobj) \<Rightarrow> string \<Rightarrow> appArg
     \<Rightarrow> error + (string jsobj \<times> (string \<rightharpoonup> string jsobj))" where
  "deleteAPI API_REGISTRY apireg files pth app =
     (case callGetApps app of
        Inl e \<Rightarrow> Inl e
      | Inr apps \<Rightarrow>
          (let apireg' = (case objGet apireg pth of
                            None \<Rightarrow> apireg
                          | Some e \<Rightarrow> if e = [] then apireg else objDelete pth apireg)
           in (case files API_REGISTRY of
                 None \<Rightarrow> Inl Error
               | Some regFileObj \<Rightarrow>
                   Inr (apireg',
                        files(API_REGISTRY \<mapsto>
                          (case objGet regFileObj pth of
                             None \<Rightarrow> regFileObj
                           | Some e \<Rightarrow> if e = [] then regFileObj
                                       else objDelete pth regFileObj))))))"

subsection \<open>The extension loader\<close>

text \<open>
  \<^verbatim>\<open>_loadSortedConfOjbects\<close>. \<open>requireConf\<close> and \<open>requireModule\<close> are \<^verbatim>\<open>require\<close> on a
  manifest and on a module file, \<open>None\<close> when it throws. A manifest is the list of its
  names and integer priorities in the order of \<^verbatim>\<open>Object.keys\<close>.
  \<^verbatim>\<open>Array.prototype.sort\<close> is stable; with the comparison function of the source, which is
  consistent on integers, its result is the one insertion sort gives.
\<close>

record confObject =
  moduleFile :: string
  priority :: int

definition compareFn :: "confObject \<Rightarrow> confObject \<Rightarrow> int" where
  "compareFn a b = (if priority a < priority b then - 1 else if priority a > priority b then 1 else 0)"

fun insertSorted :: "('a \<Rightarrow> 'a \<Rightarrow> int) \<Rightarrow> 'a \<Rightarrow> 'a list \<Rightarrow> 'a list" where
  "insertSorted cmp x [] = [x]"
| "insertSorted cmp x (y # ys) = (if cmp x y \<le> 0 then x # y # ys else y # insertSorted cmp x ys)"

definition arraySort :: "('a \<Rightarrow> 'a \<Rightarrow> int) \<Rightarrow> 'a list \<Rightarrow> 'a list" where
  "arraySort cmp xs = foldr (insertSorted cmp) xs []"

definition confObjectsOf :: "platform \<Rightarrow> string \<Rightarrow> (string \<times> int) list \<Rightarrow> confObject list" where
  "confObjectsOf P root rawObject =
     map (\<lambda>kv. \<lparr>moduleFile = root @ ''/lib/apiregistry_extensions/'' @ toLowerCase P (fst kv) @ ''.js'',
                priority = snd kv\<rparr>) rawObject"

fun collectConfObjects ::
  "platform \<Rightarrow> (string \<Rightarrow> (string \<times> int) list option) \<Rightarrow> (string \<times> string) list
     \<Rightarrow> error + confObject list" where
  "collectConfObjects P requireConf [] = Inr []"
| "collectConfObjects P requireConf ((pth, root) # rest) =
     (case requireConf pth of
        None \<Rightarrow> Inl Error
      | Some rawObject \<Rightarrow>
          (case collectConfObjects P requireConf rest of
             Inl e \<Rightarrow> Inl e
           | Inr objs \<Rightarrow> Inr (confObjectsOf P root rawObject @ objs)))"

definition sortedConfObjects ::
  "platform \<Rightarrow> (string \<Rightarrow> (string \<times> int) list option) \<Rightarrow> (string \<times> string) list
     \<Rightarrow> error + confObject list" where
  "sortedConfObjects P requireConf pathAndRoots =
     (case collectConfObjects P requireConf pathAndRoots of
        Inl e \<Rightarrow> Inl e
      | Inr objs \<Rightarrow> Inr (arraySort compareFn objs))"

fun loadModules ::
  "platform \<Rightarrow> (string \<Rightarrow> 'f option) \<Rightarrow> confObject list \<Rightarrow> error + 'f extension list" where
  "loadModules P requireModule [] = Inr []"
| "loadModules P requireModule (confObject # rest) =
     (case requireModule (moduleFile confObject) of
        None \<Rightarrow> Inl Error
      | Some m \<Rightarrow>
          (case loadModules P requireModule rest of
             Inl e \<Rightarrow> Inl e
           | Inr ms \<Rightarrow>
               Inr (\<lparr>conf_modulename = Some (pathBasename P (moduleFile confObject)), impl = m\<rparr> # ms)))"

definition loadSortedConfOjbects ::
  "platform \<Rightarrow> (string \<Rightarrow> (string \<times> int) list option) \<Rightarrow> (string \<Rightarrow> 'f option)
     \<Rightarrow> (string \<times> string) list \<Rightarrow> error + 'f extension list" where
  "loadSortedConfOjbects P requireConf requireModule pathAndRoots =
     (case sortedConfObjects P requireConf pathAndRoots of
        Inl e \<Rightarrow> Inl e
      | Inr sortedObjs \<Rightarrow> loadModules P requireModule sortedObjs)"

text \<open>
  The list \<^verbatim>\<open>initSync\<close> hands to the loader for one kind of extension: the core
  manifest, then the manifest of each application that has one, in the order of
  \<^verbatim>\<open>app.getApps()\<close>.
\<close>

definition pathAndRootsOf ::
  "string \<Rightarrow> string \<Rightarrow> string \<Rightarrow> (string \<Rightarrow> bool) \<Rightarrow> (string \<times> string) list
     \<Rightarrow> (string \<times> string) list" where
  "pathAndRootsOf CONF_CORE_SERVER ROOTDIR CONF_APPS existsSync apps =
     (CONF_CORE_SERVER, ROOTDIR) #
     map (\<lambda>a. (snd a @ ''/'' @ CONF_APPS, snd a))
       (filter (\<lambda>a. existsSync (snd a @ ''/'' @ CONF_APPS)) apps)"

section \<open>Sequences of accesses\<close>





section \<open>A sample platform\<close>

text \<open>
  A platform for evaluating the definitions on concrete requests. Its functions are
  tables and simple scanners that agree with Node.js on the arguments used in this
  theory (the Base64 texts, the JSON texts and the two HMAC-SHA256 values were computed
  outside); on other arguments they need not.
\<close>

definition toLowerASCII :: "string \<Rightarrow> string" where
  "toLowerASCII s =
     map (\<lambda>c. case map_of (zip ''ABCDEFGHIJKLMNOPQRSTUVWXYZ'' ''abcdefghijklmnopqrstuvwxyz'') c of
                None \<Rightarrow> c | Some d \<Rightarrow> d) s"

definition isSpaceASCII :: "char \<Rightarrow> bool" where
  "isSpaceASCII c = (c \<in> set [CHR '' '', CHR 0x09, CHR 0x0A, CHR 0x0B, CHR 0x0C, CHR 0x0D])"

definition trimASCII :: "string \<Rightarrow> string" where
  "trimASCII s = rev (dropWhile isSpaceASCII (rev (dropWhile isSpaceASCII s)))"

definition sampleClaimsText :: string where
  \<open>sampleClaimsText = ''{"iss":"Monkshu","iat":2,"iatms":1500,"nbf":2,"exp":1002,"jti":"00ff","expiryInterval":1000,"sub":"user1"}''\<close>

definition sampleClaims :: jsval where
  "sampleClaims = JObj [(''iss'', JStr ''Monkshu''), (''iat'', JNum 2), (''iatms'', JNum 1500),
     (''nbf'', JNum 2), (''exp'', JNum 1002), (''jti'', JStr ''00ff''),
     (''expiryInterval'', JNum 1000), (''sub'', JStr ''user1'')]"

definition sampleClaimsB64 :: string where
  "sampleClaimsB64 = ''eyJpc3MiOiJNb25rc2h1IiwiaWF0IjoyLCJpYXRtcyI6MTUwMCwibmJmIjoyLCJleHAiOjEwMDIsImp0aSI6IjAwZmYiLCJleHBpcnlJbnRlcnZhbCI6MTAwMCwic3ViIjoidXNlcjEifQ==''"

definition sampleSig :: string where
  "sampleSig = ''08db479a21a286b6c7a8418322d5749538f8b72ea73c61f18a2eecaca721ea3a''"

definition sampleSigHeaderFirst :: string where
  "sampleSigHeaderFirst = ''f3e5a30f576853ad6000df537542d9de9a023d8a024e895d92b092dd74867404''"

definition sampleBase64Decode :: "string \<Rightarrow> string" where
  \<open>sampleBase64Decode s =
     (if s = ''e30='' then ''{}''
      else if s = ''bnVsbA=='' then ''null''
      else if s = ''eyJleHBpcnlJbnRlcnZhbCI6MTAwMH0='' then ''{"expiryInterval":1000}''
      else if s = sampleClaimsB64 then sampleClaimsText
      else [])\<close>

definition sampleJsonParse :: "string \<Rightarrow> jsval option" where
  \<open>sampleJsonParse s =
     (if s = ''{}'' then Some (JObj [])
      else if s = ''null'' then Some JNull
      else if s = ''{"expiryInterval":1000}'' then Some (JObj [(''expiryInterval'', JNum 1000)])
      else if s = sampleClaimsText then Some sampleClaims
      else None)\<close>

definition sampleHmac :: "string \<Rightarrow> string \<Rightarrow> string" where
  "sampleHmac key msg =
     (if key = ''6b6579'' \<and> msg = sampleClaimsB64 @ ''.'' @ BASE_64_HEADER then sampleSig
      else if key = ''6b6579'' \<and> msg = BASE_64_HEADER @ ''.'' @ sampleClaimsB64
      then sampleSigHeaderFirst
      else [])"

definition sampleToNumber :: "jsval \<Rightarrow> int option" where
  "sampleToNumber v =
     (case v of
        JNum n \<Rightarrow> Some n
      | JStr s \<Rightarrow> if s \<noteq> [] \<and> list_all isDigit s then Some (int (digitsToNat s)) else None
      | _ \<Rightarrow> None)"

definition sampleUrlPathname :: "string \<Rightarrow> string option" where
  "sampleUrlPathname u =
     (if take 7 u = ''http://''
      then Some (takeWhile (\<lambda>c. c \<noteq> CHR ''?'' \<and> c \<noteq> CHR ''#'')
                  (dropWhile (\<lambda>c. c \<noteq> CHR ''/'') (drop 7 u)))
      else None)"

definition sampleUrlSearch :: "string \<Rightarrow> string option" where
  "sampleUrlSearch e =
     Some (takeWhile (\<lambda>c. c \<noteq> CHR ''#'') (dropWhile (\<lambda>c. c \<noteq> CHR ''?'') e))"

definition sampleQuerystringParse :: "string \<Rightarrow> string jsobj" where
  "sampleQuerystringParse s =
     (if s = [] then []
      else map (\<lambda>kv. (takeWhile (\<lambda>c. c \<noteq> CHR ''='') kv,
                       drop 1 (dropWhile (\<lambda>c. c \<noteq> CHR ''='') kv)))
             (splitOn CHR ''&'' s))"

definition samplePlatform :: platform where
  "samplePlatform =
     \<lparr>base64Decode = sampleBase64Decode,
      jsonParse = sampleJsonParse,
      base64Encode = (\<lambda>s. if s = sampleClaimsText then sampleClaimsB64 else []),
      jsonStringify = (\<lambda>v. if v = sampleClaims then sampleClaimsText else ''null''),
      hmacSha256Hex = sampleHmac,
      parseInt = sampleToNumber,
      toNumber = sampleToNumber,
      looseEq = (\<lambda>a b. False),
      toStringJS = (\<lambda>v. case v of JStr s \<Rightarrow> s | _ \<Rightarrow> ''undefined''),
      toLowerCase = toLowerASCII,
      trim = trimASCII,
      escapedSplit = (\<lambda>s sep. splitOn (hd sep) s),
      urlPathname = sampleUrlPathname,
      urlSearch = sampleUrlSearch,
      querystringParse = sampleQuerystringParse,
      pathResolve = (\<lambda>p. p),
      pathBasename = (\<lambda>p. last (splitOn CHR ''/'' p)),
      inheritedText = (\<lambda>k. if k = ''__proto__'' then ''[object Object]''
                            else if k = ''constructor'' then ''function Object() { [native code] }''
                            else ''function '' @ k @ ''() { [native code] }'')\<rparr>"

text \<open>Three tokens: with claims \<^verbatim>\<open>{"expiryInterval":1000}\<close>, \<^verbatim>\<open>{}\<close> and \<^verbatim>\<open>null\<close>.\<close>

definition tokenE1000 :: string where
  "tokenE1000 = ''h.eyJleHBpcnlJbnRlcnZhbCI6MTAwMH0=.s''"


definition tokenNull :: string where
  "tokenNull = ''h.bnVsbA==.s''"

definition emptyReason :: reasonOut where
  "emptyReason = \<lparr>reason = None, code = None\<rparr>"

definition sampleClock :: "string \<Rightarrow> int" where
  "sampleClock token = 1002"

text \<open>
  A registry with an endpoint that names a custom security checker and one that does
  not, the core registry file, and extensions that record their name in the state when
  they are called.
\<close>

definition sampleRegistry :: "string jsobj" where
  "sampleRegistry =
     [(''/apis/hello'', ''/srv/apis/hello.js?customSecurity=missing''),
      (''/apis/open'', ''/srv/apis/open.js'')]"

definition chainRegistry :: "string jsobj" where
  "chainRegistry =
     [(''/apis/audited'', ''/srv/apis/audited.js?customSecurity=audit,missing''),
      (''/apis/proto'', ''/srv/apis/proto.js?customSecurity=constructor'')]"

definition sampleFiles :: "string \<rightharpoonup> string jsobj" where
  "sampleFiles = [''/srv/conf/apiregistry.json'' \<mapsto> sampleRegistry]"

definition passChecker :: "string \<Rightarrow> (unit, string list) securitychecker" where
  "passChecker name =
     \<lparr>conf_modulename = Some name,
      impl = (\<lambda>entry endPoint ctx rsn st. Inr (True, rsn, st @ [name]))\<rparr>"

definition failChecker :: "string \<Rightarrow> (unit, string list) securitychecker" where
  "failChecker name =
     \<lparr>conf_modulename = Some name,
      impl = (\<lambda>entry endPoint ctx rsn st.
                Inr (False, rsn\<lparr>reason := Some ''denied'', code := Some 403\<rparr>, st @ [name]))\<rparr>"


definition sampleCoder :: "string \<Rightarrow> (string, unit, string list) coder" where
  "sampleCoder name =
     \<lparr>conf_modulename = Some name,
      impl = (\<lambda>entry url data ctx st. Inr (data @ ''+'' @ name, st @ [name]))\<rparr>"

definition sampleHeaderManager :: "(unit, string jsobj) headermanager" where
  "sampleHeaderManager =
     \<lparr>conf_modulename = Some ''cors.js'',
      impl = (\<lambda>entry endPoint ctx responseHeaders.
                Inr (objSet ''access-control-allow-origin'' ''*'' responseHeaders))\<rparr>"

text \<open>
  Manifests of decoders: the core one and one of an application. \<open>sampleRequireModule\<close>
  loads a module as the string of its file name.
\<close>

definition sampleRequireConf :: "string \<Rightarrow> (string \<times> int) list option" where
  "sampleRequireConf pth =
     (if pth = ''/srv/conf/apiregistry_decoders.json''
      then Some [(''URLEncoded_Decoder'', 30), (''JSON_Decoder'', 10)]
      else if pth = ''/apps/shop/conf/apiregistry_decoders.json''
      then Some [(''XML_Decoder'', 20), (''CSV_Decoder'', 10)]
      else None)"

definition sampleRequireModule :: "string \<Rightarrow> string option" where
  "sampleRequireModule file = Some file"


section \<open>Objects\<close>

lemma map_of_update_all:
  "map_of (map (\<lambda>kv. if fst kv = k then (k, v) else kv) obj) k' =
     (if k' = k \<and> k \<in> set (map fst obj) then Some v else map_of obj k')"
  by (induction obj) (force+)

lemma map_of_insertIndexKey:
  "k \<notin> set (map fst obj) \<Longrightarrow>
   map_of (insertIndexKey i k v obj) k' = (if k' = k then Some v else map_of obj k')"
  by (induction obj) (auto split: option.splits)

lemma map_of_append_new:
  "k \<notin> set (map fst obj) \<Longrightarrow>
   map_of (obj @ [(k, v)]) k' = (if k' = k then Some v else map_of obj k')"
  by (induction obj) auto

lemma objGet_objSet:
  "objGet (objSet k v obj) k' = (if k' = k then Some v else objGet obj k')"
proof (cases "k \<in> set (map fst obj)")
  case True
  then show ?thesis
    by (simp add: objGet_def objSet_def map_of_update_all)
next
  case False
  then show ?thesis
    by (cases "arrayIndex k")
       (simp_all add: objGet_def objSet_def map_of_append_new map_of_insertIndexKey
          del: map_of_append)
qed

lemma objGet_objDelete:
  "objGet (objDelete k obj) k' = (if k' = k then None else objGet obj k')"
  unfolding objGet_def objDelete_def
  by (induction obj) auto

lemma objGet_assignProp:
  "k \<noteq> ''__proto__'' \<Longrightarrow>
   objGet (assignProp k v obj) k' = (if k' = k then Some v else objGet obj k')"
  by (simp add: assignProp_def objGet_objSet)

lemma objGet_assignProp_other:
  "k' \<noteq> k \<Longrightarrow> objGet (assignProp k v obj) k' = objGet obj k'"
  by (simp add: assignProp_def objGet_objSet)

lemma objLookup_Own: "(objLookup obj k = Own v) = (objGet obj k = Some v)"
  by (auto simp: objLookup_def objGet_def split: option.splits)

lemma objLookup_no_own:
  "objGet obj k = None \<Longrightarrow>
   objLookup obj k = (if k \<in> set protoNames then Inherited else Absent)"
  by (simp add: objLookup_def objGet_def)

lemma objLookup_cases:
  "objLookup obj k = Absent \<and> objGet obj k = None \<and> k \<notin> set protoNames
   \<or> objLookup obj k = Inherited \<and> objGet obj k = None \<and> k \<in> set protoNames
   \<or> (\<exists>v. objLookup obj k = Own v \<and> objGet obj k = Some v)"
  by (auto simp: objLookup_def objGet_def split: option.splits)


section \<open>Token validation\<close>

subsection \<open>The branches of \<^verbatim>\<open>checkToken\<close>\<close>

lemma splitOn_no_sep: "c \<notin> set s \<Longrightarrow> splitOn c s = [s]"
  by (induction s) auto






lemma checkToken_absent:
  "objGet tbl t = None \<Longrightarrow> t \<notin> set protoNames \<Longrightarrow>
   checkToken P now nowUpd tbl t rsn an cc req =
     Inr (False, reject rsn ''JWT Token Error, no last access found'', tbl)"
  by (simp add: checkToken_def objLookup_no_own)



lemma checkToken_zero:
  "objGet tbl t = Some 0 \<Longrightarrow>
   checkToken P now nowUpd tbl t rsn an cc req =
     Inr (False, reject rsn ''JWT Token Error, no last access found'', tbl)"
  by (simp add: checkToken_def objLookup_Own[THEN iffD2])











lemma checkToken_after_release_nonempty:
  "t \<noteq> [] \<Longrightarrow> t \<notin> set protoNames \<Longrightarrow>
   checkToken P now nowUpd (releaseToken tbl t) t rsn an cc req =
     Inr (False, reject rsn ''JWT Token Error, no last access found'', releaseToken tbl t)"
  by (cases "objGet tbl t")
     (auto simp: releaseToken_def objGet_objDelete checkToken_absent checkToken_zero
        objLookup_Own[THEN iffD2] objLookup_no_own)



subsection \<open>The security checker\<close>




subsection \<open>Validity of a token\<close>





subsection \<open>Rejection leaves the table alone\<close>



subsection \<open>Sliding expiry\<close>





section \<open>The garbage collection sweep\<close>

text \<open>
  What a sweep does to a table with distinct keys when no property read throws: it
  keeps exactly the tokens whose age does not exceed their own \<open>expiryInterval\<close>, and
  calls every listener once for each evicted token, in the order of the keys. A token
  with no parseable claims has no \<open>expiryInterval\<close> and is kept.
\<close>

lemma filter_objDelete:
  "filter Q (objDelete t tbl) = filter (\<lambda>kv. fst kv \<noteq> t \<and> Q kv) tbl"
  by (simp add: objDelete_def conj_commute)

lemma cleanTokensLoop_result:
  assumes "distinct ks"
      and "\<forall>t \<in> set ks. getProp (getClaims P t) ''expiryInterval'' = Inr (ei t)"
  shows "cleanTokensLoop P nowAt ls ks tbl calls =
           Inr (filter (\<lambda>kv. \<not> (fst kv \<in> set ks \<and>
                          (case objGet tbl (fst kv) of None \<Rightarrow> False
                           | Some la \<Rightarrow> gtNumber P (nowAt (fst kv) - la) (ei (fst kv))))) tbl,
                calls @ concat (map (\<lambda>t. map (\<lambda>l. (l, ''token_expireed'', t)) ls)
                  (filter (\<lambda>t. case objGet tbl t of None \<Rightarrow> False
                                | Some la \<Rightarrow> gtNumber P (nowAt t - la) (ei t)) ks)))"
  using assms
proof (induction ks arbitrary: tbl calls)
  case Nil
  then show ?case by simp
next
  case (Cons t rest)
  let ?E = "\<lambda>tb k. case objGet tb k of None \<Rightarrow> False
                      | Some la \<Rightarrow> gtNumber P (nowAt k - la) (ei k)"
  from Cons.prems have d: "distinct rest" "t \<notin> set rest"
    and c: "\<forall>k \<in> set rest. getProp (getClaims P k) ''expiryInterval'' = Inr (ei k)"
    and ct: "getProp (getClaims P t) ''expiryInterval'' = Inr (ei t)"
    by simp_all
  show ?case
  proof (cases "?E tbl t")
    case False
    then have step: "cleanTokensLoop P nowAt ls (t # rest) tbl calls =
                       cleanTokensLoop P nowAt ls rest tbl calls"
      using ct by (simp split: option.splits)
    have f1: "filter (\<lambda>kv. \<not> (fst kv \<in> set (t # rest) \<and> ?E tbl (fst kv))) tbl
            = filter (\<lambda>kv. \<not> (fst kv \<in> set rest \<and> ?E tbl (fst kv))) tbl"
      using False by (intro filter_cong) auto
    have f2: "filter (?E tbl) (t # rest) = filter (?E tbl) rest"
      using False by simp
    show ?thesis
      unfolding step Cons.IH[OF d(1) c] f1 f2 ..
  next
    case True
    then obtain la where la: "objGet tbl t = Some la" "gtNumber P (nowAt t - la) (ei t)"
      by (auto split: option.splits)
    then have step: "cleanTokensLoop P nowAt ls (t # rest) tbl calls =
                       cleanTokensLoop P nowAt ls rest (objDelete t tbl)
                         (calls @ map (\<lambda>l. (l, ''token_expireed'', t)) ls)"
      using ct by simp
    have same: "?E (objDelete t tbl) k = ?E tbl k" if "k \<noteq> t" for k
      using that by (simp add: objGet_objDelete)
    have pt: "(fst kv \<noteq> t \<and> \<not> (fst kv \<in> set rest \<and> ?E (objDelete t tbl) (fst kv)))
                = (\<not> (fst kv \<in> set (t # rest) \<and> ?E tbl (fst kv)))" for kv :: "string \<times> int"
    proof (cases "fst kv = t")
      case eq: True
      with True show ?thesis by (auto split: option.splits)
    next
      case False
      with same[OF False] show ?thesis by (auto split: option.splits)
    qed
    have f1: "filter (\<lambda>kv. \<not> (fst kv \<in> set rest \<and> ?E (objDelete t tbl) (fst kv))) (objDelete t tbl)
            = filter (\<lambda>kv. \<not> (fst kv \<in> set (t # rest) \<and> ?E tbl (fst kv))) tbl"
      unfolding filter_objDelete pt ..
    have f2: "filter (?E (objDelete t tbl)) rest = filter (?E tbl) rest"
    proof (rule filter_cong[OF refl])
      fix k assume "k \<in> set rest"
      with d(2) have "k \<noteq> t" by auto
      from same[OF this] show "?E (objDelete t tbl) k = ?E tbl k" .
    qed
    have f3: "filter (?E tbl) (t # rest) = t # filter (?E tbl) rest"
      using True by simp
    show ?thesis
      unfolding step Cons.IH[OF d(1) c] f1 f2 f3 by simp
  qed
qed

lemma cleanTokens_result:
  assumes "distinct (objKeys tbl)"
      and "\<forall>t \<in> set (objKeys tbl). getProp (getClaims P t) ''expiryInterval'' = Inr (ei t)"
  shows "cleanTokens P nowAt ls tbl =
           Inr (filter (\<lambda>kv. \<not> gtNumber P (nowAt (fst kv) - snd kv) (ei (fst kv))) tbl,
                concat (map (\<lambda>kv. map (\<lambda>l. (l, ''token_expireed'', fst kv)) ls)
                  (filter (\<lambda>kv. gtNumber P (nowAt (fst kv) - snd kv) (ei (fst kv))) tbl)))"
proof -
  have look: "objGet tbl (fst kv) = Some (snd kv)" if "kv \<in> set tbl" for kv
  proof -
    from that have "(fst kv, snd kv) \<in> set tbl" by simp
    with assms(1) show ?thesis
      unfolding objGet_def objKeys_def by (rule map_of_is_SomeI)
  qed
  have e1: "(\<not> (fst kv \<in> set (objKeys tbl) \<and>
                          (case objGet tbl (fst kv) of None \<Rightarrow> False
                           | Some la \<Rightarrow> gtNumber P (nowAt (fst kv) - la) (ei (fst kv)))))
          = (\<not> gtNumber P (nowAt (fst kv) - snd kv) (ei (fst kv)))" if "kv \<in> set tbl" for kv
    using look[OF that] that by (simp add: objKeys_def)
  have e2: "(case objGet tbl (fst kv) of None \<Rightarrow> False
             | Some la \<Rightarrow> gtNumber P (nowAt (fst kv) - la) (ei (fst kv)))
          = gtNumber P (nowAt (fst kv) - snd kv) (ei (fst kv))" if "kv \<in> set tbl" for kv
    using look[OF that] by simp
  have t1: "filter (\<lambda>kv. \<not> (fst kv \<in> set (objKeys tbl) \<and>
                          (case objGet tbl (fst kv) of None \<Rightarrow> False
                           | Some la \<Rightarrow> gtNumber P (nowAt (fst kv) - la) (ei (fst kv))))) tbl
          = filter (\<lambda>kv. \<not> gtNumber P (nowAt (fst kv) - snd kv) (ei (fst kv))) tbl"
    by (intro filter_cong refl) (rule e1)
  have t2: "filter (\<lambda>t. case objGet tbl t of None \<Rightarrow> False
                                | Some la \<Rightarrow> gtNumber P (nowAt t - la) (ei t)) (objKeys tbl)
          = map fst (filter (\<lambda>kv. gtNumber P (nowAt (fst kv) - snd kv) (ei (fst kv))) tbl)"
    unfolding objKeys_def filter_map comp_def
    by (rule arg_cong[where f = "map fst"], intro filter_cong refl) (rule e2)
  show ?thesis
    unfolding cleanTokens_def cleanTokensLoop_result[OF assms] t1 t2
    by (simp add: comp_def)
qed

lemma getClaims_unparseable:
  "parseClaims P t = None \<Longrightarrow> getProp (getClaims P t) ''expiryInterval'' = Inr JUndefined"
  by (simp add: getClaims_def)

text \<open>
  Claim C9, evaluated. The table holds a token with \<open>expiryInterval\<close> 1000 last used at
  time 1, and a token with no parseable claims; two listeners are registered and the
  clock reads 1002. The sweep evicts the first token, keeps the second without failing,
  and calls each listener once, with the event name \<^verbatim>\<open>token_expireed\<close>.
\<close>

theorem gc_sweep_event_name:
  "cleanTokens samplePlatform sampleClock [0 :: nat, 1] [(tokenE1000, 1), (''garbage'', 1)]
     = Inr ([(''garbage'', 1)],
            [(0, ''token_expireed'', tokenE1000), (1, ''token_expireed'', tokenE1000)])"
  by code_simp

section \<open>Token issuance\<close>

lemma splitOn_append_sep: "c \<notin> set a \<Longrightarrow> splitOn c (a @ c # rest) = a # splitOn c rest"
  by (induction a) (auto split: list.splits)

lemma splitOn_three:
  "c \<notin> set a \<Longrightarrow> c \<notin> set b \<Longrightarrow> c \<notin> set d \<Longrightarrow>
   splitOn c (a @ [c] @ b @ [c] @ d) = [a, b, d]"
  by (simp add: splitOn_append_sep splitOn_no_sep)

lemma header_no_dot: "CHR ''.'' \<notin> set BASE_64_HEADER"
  by (simp add: BASE_64_HEADER_def)

lemma header_not_proto: "BASE_64_HEADER @ rest \<noteq> ''__proto__''"
  by (simp add: BASE_64_HEADER_def)

lemma buildClaims_initialised:
  "\<exists>claims. buildClaims P (JObj c) timenow jti props = Inr claims"
  by (simp add: buildClaims_def Let_def)

text \<open>
  Claim C2, as the code has it. Once the module is initialised (\<open>conf\<close> is an object),
  \<^verbatim>\<open>createSignedJWTToken\<close> returns for every properties object. The token is the fixed
  header segment, the Base64 of the JSON text of the claims, and the HMAC-SHA256, under
  the key drawn for this call, of the claims segment followed by a dot and the header
  segment; it is entered in the live-token table. Base64 and hexadecimal text hold no
  dot, so the token has exactly these three dot-separated parts.
\<close>

theorem createSignedJWTToken_structure:
  "(\<exists>claims. buildClaims P (JObj c) timenow jti props = Inr claims)
   \<and> (buildClaims P conf timenow jti props = Inr claims
        \<and> claimSeg = base64Encode P (jsonStringify P (JObj claims))
        \<and> sigSeg = hmacSha256Hex P key (claimSeg @ ''.'' @ BASE_64_HEADER)
        \<and> token = BASE_64_HEADER @ ''.'' @ claimSeg @ ''.'' @ sigSeg \<longrightarrow>
          createSignedJWTToken P conf timenow jti key nowReg tbl props =
            Inr (token, updateLastAccessOrAddToken nowReg tbl token)
        \<and> objGet (updateLastAccessOrAddToken nowReg tbl token) token = Some nowReg
        \<and> ((\<forall>s. CHR ''.'' \<notin> set (base64Encode P s))
             \<and> (\<forall>k m. CHR ''.'' \<notin> set (hmacSha256Hex P k m))
            \<longrightarrow> splitOn CHR ''.'' token = [BASE_64_HEADER, claimSeg, sigSeg]))"
proof -
  have tok: "createSignedJWTToken P conf timenow jti key nowReg tbl props =
            Inr (token, updateLastAccessOrAddToken nowReg tbl token)"
    if "buildClaims P conf timenow jti props = Inr claims"
       "claimSeg = base64Encode P (jsonStringify P (JObj claims))"
       "sigSeg = hmacSha256Hex P key (claimSeg @ ''.'' @ BASE_64_HEADER)"
       "token = BASE_64_HEADER @ ''.'' @ claimSeg @ ''.'' @ sigSeg"
    using that by (simp add: createSignedJWTToken_def tokenClaimHeader_def Let_def)
  have reg: "objGet (updateLastAccessOrAddToken nowReg tbl token) token = Some nowReg"
    if "token = BASE_64_HEADER @ ''.'' @ claimSeg @ ''.'' @ sigSeg"
    using that header_not_proto[of "''.'' @ claimSeg @ ''.'' @ sigSeg"]
    by (simp add: updateLastAccessOrAddToken_def objGet_assignProp)
  have parts: "splitOn CHR ''.'' token = [BASE_64_HEADER, claimSeg, sigSeg]"
    if "claimSeg = base64Encode P (jsonStringify P (JObj claims))"
       "sigSeg = hmacSha256Hex P key (claimSeg @ ''.'' @ BASE_64_HEADER)"
       "token = BASE_64_HEADER @ ''.'' @ claimSeg @ ''.'' @ sigSeg"
       "\<forall>s. CHR ''.'' \<notin> set (base64Encode P s)" "\<forall>k m. CHR ''.'' \<notin> set (hmacSha256Hex P k m)"
  proof -
    from that have "CHR ''.'' \<notin> set claimSeg" "CHR ''.'' \<notin> set sigSeg"
      by simp_all
    with header_no_dot that(3) show ?thesis
      using splitOn_three[of "CHR ''.''" BASE_64_HEADER claimSeg sigSeg] by simp
  qed
  from buildClaims_initialised[of P c timenow jti props] tok reg parts
  show ?thesis by blast
qed

theorem createSignedJWTToken_witness:
  "buildClaims samplePlatform (JObj [(''expiryInterval'', JNum 1000)]) 1500 ''00ff''
       [(''sub'', JStr ''user1'')]
     = Inr [(''iss'', JStr ''Monkshu''), (''iat'', JNum 2), (''iatms'', JNum 1500),
            (''nbf'', JNum 2), (''exp'', JNum 1002), (''jti'', JStr ''00ff''),
            (''expiryInterval'', JNum 1000), (''sub'', JStr ''user1'')]
   \<and> createSignedJWTToken samplePlatform (JObj [(''expiryInterval'', JNum 1000)]) 1500 ''00ff''
       ''6b6579'' 1501 [] [(''sub'', JStr ''user1'')]
     = Inr (BASE_64_HEADER @ ''.'' @ sampleClaimsB64 @ ''.'' @ sampleSig,
            [(BASE_64_HEADER @ ''.'' @ sampleClaimsB64 @ ''.'' @ sampleSig, 1501)])
   \<and> (\<forall>s. CHR ''.'' \<notin> set (base64Encode samplePlatform s))
   \<and> (\<forall>k m. CHR ''.'' \<notin> set (hmacSha256Hex samplePlatform k m))
   \<and> splitOn CHR ''.'' (BASE_64_HEADER @ ''.'' @ sampleClaimsB64 @ ''.'' @ sampleSig)
       = [BASE_64_HEADER, sampleClaimsB64, sampleSig]"
proof -
  have bc: "buildClaims samplePlatform (JObj [(''expiryInterval'', JNum 1000)]) 1500 ''00ff''
       [(''sub'', JStr ''user1'')]
     = Inr [(''iss'', JStr ''Monkshu''), (''iat'', JNum 2), (''iatms'', JNum 1500),
            (''nbf'', JNum 2), (''exp'', JNum 1002), (''jti'', JStr ''00ff''),
            (''expiryInterval'', JNum 1000), (''sub'', JStr ''user1'')]"
    by code_simp
  have b64: "sampleClaimsB64 = base64Encode samplePlatform (jsonStringify samplePlatform
       (JObj [(''iss'', JStr ''Monkshu''), (''iat'', JNum 2), (''iatms'', JNum 1500),
            (''nbf'', JNum 2), (''exp'', JNum 1002), (''jti'', JStr ''00ff''),
            (''expiryInterval'', JNum 1000), (''sub'', JStr ''user1'')]))"
    by code_simp
  have sg: "sampleSig = hmacSha256Hex samplePlatform ''6b6579''
              (sampleClaimsB64 @ ''.'' @ BASE_64_HEADER)"
    by code_simp
  have nd1: "\<forall>s. CHR ''.'' \<notin> set (base64Encode samplePlatform s)"
    by (simp add: samplePlatform_def sampleClaimsB64_def)
  have nd2: "\<forall>k m. CHR ''.'' \<notin> set (hmacSha256Hex samplePlatform k m)"
    by (simp add: samplePlatform_def sampleHmac_def sampleSig_def sampleSigHeaderFirst_def)
  have tbl: "updateLastAccessOrAddToken 1501 []
               (BASE_64_HEADER @ ''.'' @ sampleClaimsB64 @ ''.'' @ sampleSig)
             = [(BASE_64_HEADER @ ''.'' @ sampleClaimsB64 @ ''.'' @ sampleSig, 1501)]"
    by code_simp
  from createSignedJWTToken_structure[where P = samplePlatform
      and conf = "JObj [(''expiryInterval'', JNum 1000)]" and timenow = 1500 and jti = "''00ff''"
      and key = "''6b6579''" and nowReg = 1501 and tbl = "[]" and props = "[(''sub'', JStr ''user1'')]"
      and claimSeg = sampleClaimsB64 and sigSeg = sampleSig
      and token = "BASE_64_HEADER @ ''.'' @ sampleClaimsB64 @ ''.'' @ sampleSig"
      and claims = "[(''iss'', JStr ''Monkshu''), (''iat'', JNum 2), (''iatms'', JNum 1500),
            (''nbf'', JNum 2), (''exp'', JNum 1002), (''jti'', JStr ''00ff''),
            (''expiryInterval'', JNum 1000), (''sub'', JStr ''user1'')]"]
    bc b64 sg nd1 nd2
  have "createSignedJWTToken samplePlatform (JObj [(''expiryInterval'', JNum 1000)]) 1500 ''00ff''
       ''6b6579'' 1501 [] [(''sub'', JStr ''user1'')]
     = Inr (BASE_64_HEADER @ ''.'' @ sampleClaimsB64 @ ''.'' @ sampleSig,
            updateLastAccessOrAddToken 1501 []
               (BASE_64_HEADER @ ''.'' @ sampleClaimsB64 @ ''.'' @ sampleSig))"
    and "splitOn CHR ''.'' (BASE_64_HEADER @ ''.'' @ sampleClaimsB64 @ ''.'' @ sampleSig)
       = [BASE_64_HEADER, sampleClaimsB64, sampleSig]"
    by blast+
  with bc nd1 nd2 tbl show ?thesis by simp
qed

text \<open>
  Claim C2 as it is worded fails: the signature in the token is not the HMAC of
  \<^verbatim>\<open>header.claims\<close>. For the claims of \<open>sampleClaimsText\<close> and the key \<^verbatim>\<open>6b6579\<close> the
  token carries \<open>sampleSig\<close>, while the HMAC of \<^verbatim>\<open>header.claims\<close> is
  \<open>sampleSigHeaderFirst\<close>.
\<close>

theorem signature_over_header_first_counterexample:
  "createSignedJWTToken samplePlatform (JObj [(''expiryInterval'', JNum 1000)]) 1500 ''00ff''
       ''6b6579'' 1501 [] [(''sub'', JStr ''user1'')]
     = Inr (BASE_64_HEADER @ ''.'' @ sampleClaimsB64 @ ''.'' @ sampleSig,
            [(BASE_64_HEADER @ ''.'' @ sampleClaimsB64 @ ''.'' @ sampleSig, 1501)])
   \<and> hmacSha256Hex samplePlatform ''6b6579'' (BASE_64_HEADER @ ''.'' @ sampleClaimsB64)
       = sampleSigHeaderFirst
   \<and> sampleSig \<noteq> sampleSigHeaderFirst"
  by code_simp

section \<open>The security chain\<close>

lemma securityLoop_append:
  "securityLoop i (pre @ rest) e ep ctx rsn st called =
     (case securityLoop i pre e ep ctx rsn st called of
        Inl err \<Rightarrow> Inl err
      | Inr (ok, r1, s1, tr1) \<Rightarrow>
          if ok then securityLoop (i + length pre) rest e ep ctx r1 s1 tr1
          else Inr (False, r1, s1, tr1))"
proof (induction pre arbitrary: i rsn st called)
  case Nil
  then show ?case by simp
next
  case (Cons c pre)
  then show ?case
    by (cases c) (auto split: sum.splits prod.splits)
qed







lemma securityLoop_inherited_throws:
  assumes "securityLoop i pre e ep ctx rsn st called = Inr (True, r1, s1, tr1)"
  shows "securityLoop i (pre @ Inherited # post) e ep ctx rsn st called = Inl TypeError"
  using assms by (simp add: securityLoop_append)

lemma definedPositions_append:
  "definedPositions i (pre @ rest) = definedPositions i pre @ definedPositions (i + length pre) rest"
proof (induction pre arbitrary: i)
  case Nil
  then show ?case by simp
next
  case (Cons c pre)
  then show ?case by (cases c) simp_all
qed



lemma loadModules_tagged:
  "loadModules P requireModule objs = Inr ms \<Longrightarrow>
   map conf_modulename ms = map (\<lambda>obj. Some (pathBasename P (moduleFile obj))) objs"
proof (induction objs arbitrary: ms)
  case Nil
  then show ?case by simp
next
  case (Cons obj objs)
  then show ?case by (auto split: option.splits sum.splits)
qed

text \<open>
  A name in \<^verbatim>\<open>customSecurity\<close> that is the name of a property of \<^verbatim>\<open>Object.prototype\<close>,
  with no module registered under it: the read of the map finds the inherited property,
  which has no \<^verbatim>\<open>checkSecurity\<close>, and the call throws.
\<close>

lemma checkSecurity_inherited_name_throws:
  "checkSecurity samplePlatform chainRegistry [passChecker ''A''] []
       ''http://localhost:9090/apis/proto'' () emptyReason []
     = Inl TypeError"
  by code_simp












subsection \<open>Unregistered endpoints\<close>

lemma unregistered_endpoint:
  assumes "lookupEntry P apireg url = Inr None"
  shows "decodeIncomingData P apireg decoders url data ctx st = Inr (RetFalse, st)"
    and "encodeResponse P apireg encoders url respObj ctx st = Inr (RetFalse, st)"
    and "injectResponseHeaders P apireg headermanagers url hctx responseHeaders = Inr responseHeaders"
    and "checkSecurity P apireg scs custom url sctx rsn sst = Inr (False, rsn, sst, [])"
  using assms
  by (simp_all add: decodeIncomingData_def encodeResponse_def injectResponseHeaders_def
        checkSecurity_def)

lemma lookupEntry_unregistered:
  "urlPathname P url = Some endPoint \<Longrightarrow> objGet apireg endPoint = None \<Longrightarrow>
   endPoint \<notin> set protoNames \<Longrightarrow> lookupEntry P apireg url = Inr None"
  by (simp add: lookupEntry_def objLookup_no_own)

text \<open>
  Claim C4, evaluated on a URL whose path has no registry entry. \<^verbatim>\<open>decodeIncomingData\<close>
  and \<^verbatim>\<open>encodeResponse\<close> return \<^verbatim>\<open>false\<close> and call no extension,
  \<^verbatim>\<open>injectResponseHeaders\<close> leaves the response headers as they are, and \<^verbatim>\<open>checkSecurity\<close>
  returns false; but the reason object of the caller comes back as it went in, with
  neither \<^verbatim>\<open>reason\<close> nor \<^verbatim>\<open>code\<close> set.
\<close>

theorem unregistered_endpoint_reason_untouched:
  "lookupEntry samplePlatform sampleRegistry ''http://localhost:9090/apis/nothere'' = Inr None
   \<and> decodeIncomingData samplePlatform sampleRegistry [sampleCoder ''d'']
        ''http://localhost:9090/apis/nothere'' ''body'' () [] = Inr (RetFalse, [])
   \<and> encodeResponse samplePlatform sampleRegistry [sampleCoder ''e'']
        ''http://localhost:9090/apis/nothere'' ''body'' () [] = Inr (RetFalse, [])
   \<and> injectResponseHeaders samplePlatform sampleRegistry [sampleHeaderManager]
        ''http://localhost:9090/apis/nothere'' () [(''content-type'', ''text/plain'')]
       = Inr [(''content-type'', ''text/plain'')]
   \<and> checkSecurity samplePlatform sampleRegistry [failChecker ''A''] []
        ''http://localhost:9090/apis/nothere'' () emptyReason []
       = Inr (False, \<lparr>reason = None, code = None\<rparr>, [], [])"
  by code_simp

subsection \<open>Registry updates\<close>

lemma addAPI_throws:
  "addAPI regFile apireg files pth e (AppName n) = Inl TypeError"
  "addAPI regFile apireg files pth e AppUndefined = Inl TypeError"
  "deleteAPI regFile apireg files pth (AppName n) = Inl TypeError"
  "deleteAPI regFile apireg files pth AppUndefined = Inl TypeError"
  by (simp_all add: addAPI_def deleteAPI_def callGetApps_def)

lemma addAPI_with_catalogue:
  assumes "addAPI regFile apireg files pth e (AppObject apps) = Inr (apireg', files')"
      and "pth \<noteq> ''__proto__''"
  shows "objGet apireg' pth = Some e \<and> pth \<in> set (listAPIs apireg')"
proof -
  from assms have "apireg' = objSet pth e apireg"
    by (auto simp: addAPI_def callGetApps_def assignProp_def Let_def split: option.splits)
  then have "objGet apireg' pth = Some e" by (simp add: objGet_objSet)
  then show ?thesis
    by (auto simp: objGet_def listAPIs_def objKeys_def dest: map_of_SomeD intro: rev_image_eqI)
qed


text \<open>
  Claim C6, evaluated. Called with an application name, or with no application,
  \<^verbatim>\<open>addAPI\<close> and \<^verbatim>\<open>deleteAPI\<close> throw a \<^verbatim>\<open>TypeError\<close> before they touch the registry: the
  path that was to be added does not resolve, and the path that was to be deleted still
  does and is still listed.
\<close>

theorem addAPI_throws_for_application_name:
  "addAPI ''/srv/conf/apiregistry.json'' sampleRegistry sampleFiles ''/apis/new''
       ''/srv/apis/new.js'' (AppName ''shop'') = Inl TypeError
   \<and> addAPI ''/srv/conf/apiregistry.json'' sampleRegistry sampleFiles ''/apis/new''
       ''/srv/apis/new.js'' AppUndefined = Inl TypeError
   \<and> deleteAPI ''/srv/conf/apiregistry.json'' sampleRegistry sampleFiles ''/apis/open''
       (AppName ''shop'') = Inl TypeError
   \<and> getAPI samplePlatform sampleRegistry ''http://localhost:9090/apis/new'' = Inr None
   \<and> getAPI samplePlatform sampleRegistry ''http://localhost:9090/apis/open''
       = Inr (Some ''/srv/apis/open.js'')
   \<and> listAPIs sampleRegistry = [''/apis/hello'', ''/apis/open'']"
proof -
  have "getAPI samplePlatform sampleRegistry ''http://localhost:9090/apis/new'' = Inr None"
    and "getAPI samplePlatform sampleRegistry ''http://localhost:9090/apis/open''
       = Inr (Some ''/srv/apis/open.js'')"
    and "listAPIs sampleRegistry = [''/apis/hello'', ''/apis/open'']"
    by code_simp+
  then show ?thesis
    by (simp add: addAPI_def deleteAPI_def callGetApps_def)
qed

section \<open>Order of the extension chains\<close>

lemma decodeLoop_append:
  "decodeLoop (xs @ ys) entry url d ctx st =
     (case decodeLoop xs entry url d ctx st of
        Inl e \<Rightarrow> Inl e
      | Inr (d', st') \<Rightarrow> decodeLoop ys entry url d' ctx st')"
  by (induction xs arbitrary: d st) (auto split: sum.splits)


lemma compareFn_le: "(compareFn a b \<le> 0) = (priority a \<le> priority b)"
  by (simp add: compareFn_def)

lemma mset_insertSorted: "mset (insertSorted cmp x xs) = add_mset x (mset xs)"
  by (induction xs) auto

lemma mset_arraySort: "mset (arraySort cmp xs) = mset xs"
  by (induction xs) (simp_all add: arraySort_def mset_insertSorted)

lemma set_insertSorted: "set (insertSorted cmp x xs) = insert x (set xs)"
  by (induction xs) auto

lemma sorted_insertSorted:
  "sorted (map priority xs) \<Longrightarrow> sorted (map priority (insertSorted compareFn x xs))"
  by (induction xs) (auto simp: compareFn_le set_insertSorted)

lemma sorted_arraySort: "sorted (map priority (arraySort compareFn xs))"
  by (induction xs) (simp_all add: arraySort_def sorted_insertSorted)

lemma filter_insertSorted:
  "filter (\<lambda>d. priority d = p) (insertSorted compareFn x xs) =
     (if priority x = p then x # filter (\<lambda>d. priority d = p) xs
      else filter (\<lambda>d. priority d = p) xs)"
  by (induction xs) (auto simp: compareFn_le)

lemma filter_arraySort:
  "filter (\<lambda>d. priority d = p) (arraySort compareFn xs) = filter (\<lambda>d. priority d = p) xs"
  by (induction xs) (simp_all add: arraySort_def filter_insertSorted)

lemma collectConfObjects_order:
  "collectConfObjects P requireConf pathAndRoots = Inr objs \<Longrightarrow>
   objs = concat (map (\<lambda>pr. confObjectsOf P (snd pr) (the (requireConf (fst pr)))) pathAndRoots)"
proof (induction pathAndRoots arbitrary: objs)
  case Nil
  then show ?case by simp
next
  case (Cons pr rest)
  obtain pth root where pr: "pr = (pth, root)" by (cases pr)
  with Cons.prems obtain rawObject objs' where
    "requireConf pth = Some rawObject" "collectConfObjects P requireConf rest = Inr objs'"
    "objs = confObjectsOf P root rawObject @ objs'"
    by (auto split: option.splits sum.splits)
  with Cons.IH[of objs'] pr show ?case by simp
qed

lemma loadModules_order:
  "loadModules P requireModule ds = Inr chain \<Longrightarrow>
   map conf_modulename chain = map (\<lambda>d. Some (pathBasename P (moduleFile d))) ds
   \<and> map (\<lambda>m. Some (impl m)) chain = map (\<lambda>d. requireModule (moduleFile d)) ds"
proof (induction ds arbitrary: chain)
  case Nil
  then show ?case by simp
next
  case (Cons d ds)
  from Cons.prems obtain m ms where
    "requireModule (moduleFile d) = Some m" "loadModules P requireModule ds = Inr ms"
    "chain = \<lparr>conf_modulename = Some (pathBasename P (moduleFile d)), impl = m\<rparr> # ms"
    by (auto split: option.splits sum.splits)
  with Cons.IH[of ms] show ?case by simp
qed

text \<open>
  Claim C7. Whenever the loader returns a chain, the chain is, module by module, the
  list \<open>ds\<close> of descriptors after the sort; \<open>ds\<close> is a permutation of the descriptors
  \<open>objs\<close> in discovery order (manifest by manifest in the order given, the core manifest
  first and then the applications in the order of the catalogue), it is ascending in
  priority, and for every priority the descriptors with that priority stand in \<open>ds\<close> in
  the order they have in \<open>objs\<close>.
\<close>

theorem extension_chain_sorted_stable:
  assumes "loadSortedConfOjbects P requireConf requireModule pathAndRoots = Inr chain"
  shows "\<exists>objs ds.
           collectConfObjects P requireConf pathAndRoots = Inr objs
         \<and> objs = concat (map (\<lambda>pr. confObjectsOf P (snd pr) (the (requireConf (fst pr))))
                            pathAndRoots)
         \<and> (pathAndRoots = pathAndRootsOf coreConf rootDir appsConf existsSync apps \<longrightarrow>
              objs = confObjectsOf P rootDir (the (requireConf coreConf))
                     @ concat (map (\<lambda>a. confObjectsOf P (snd a)
                                           (the (requireConf (snd a @ ''/'' @ appsConf))))
                                 (filter (\<lambda>a. existsSync (snd a @ ''/'' @ appsConf)) apps)))
         \<and> sortedConfObjects P requireConf pathAndRoots = Inr ds
         \<and> mset ds = mset objs
         \<and> sorted (map priority ds)
         \<and> (\<forall>p. filter (\<lambda>d. priority d = p) ds = filter (\<lambda>d. priority d = p) objs)
         \<and> map conf_modulename chain = map (\<lambda>d. Some (pathBasename P (moduleFile d))) ds
         \<and> map (\<lambda>m. Some (impl m)) chain = map (\<lambda>d. requireModule (moduleFile d)) ds"
proof -
  from assms obtain ds where ds: "sortedConfObjects P requireConf pathAndRoots = Inr ds"
    "loadModules P requireModule ds = Inr chain"
    by (auto simp: loadSortedConfOjbects_def split: sum.splits)
  from ds(1) obtain objs where objs: "collectConfObjects P requireConf pathAndRoots = Inr objs"
    "ds = arraySort compareFn objs"
    by (auto simp: sortedConfObjects_def split: sum.splits)
  note order = collectConfObjects_order[OF objs(1)]
  have core_first: "objs = confObjectsOf P rootDir (the (requireConf coreConf))
                     @ concat (map (\<lambda>a. confObjectsOf P (snd a)
                                           (the (requireConf (snd a @ ''/'' @ appsConf))))
                                 (filter (\<lambda>a. existsSync (snd a @ ''/'' @ appsConf)) apps))"
    if "pathAndRoots = pathAndRootsOf coreConf rootDir appsConf existsSync apps"
    using order that by (simp add: pathAndRootsOf_def comp_def)
  from objs(2) have "mset ds = mset objs" "sorted (map priority ds)"
    "\<forall>p. filter (\<lambda>d. priority d = p) ds = filter (\<lambda>d. priority d = p) objs"
    by (simp_all add: mset_arraySort sorted_arraySort filter_arraySort)
  with order core_first loadModules_order[OF ds(2)] objs(1) ds(1)
  show ?thesis by blast
qed

theorem extension_chain_witness:
  "loadSortedConfOjbects samplePlatform sampleRequireConf sampleRequireModule
     (pathAndRootsOf ''/srv/conf/apiregistry_decoders.json'' ''/srv''
        ''conf/apiregistry_decoders.json'' (\<lambda>f. f = ''/apps/shop/conf/apiregistry_decoders.json'')
        [(''blog'', ''/apps/blog''), (''shop'', ''/apps/shop'')])
     = Inr [\<lparr>conf_modulename = Some ''json_decoder.js'',
             impl = ''/srv/lib/apiregistry_extensions/json_decoder.js''\<rparr>,
            \<lparr>conf_modulename = Some ''csv_decoder.js'',
             impl = ''/apps/shop/lib/apiregistry_extensions/csv_decoder.js''\<rparr>,
            \<lparr>conf_modulename = Some ''xml_decoder.js'',
             impl = ''/apps/shop/lib/apiregistry_extensions/xml_decoder.js''\<rparr>,
            \<lparr>conf_modulename = Some ''urlencoded_decoder.js'',
             impl = ''/srv/lib/apiregistry_extensions/urlencoded_decoder.js''\<rparr>]
   \<and> (\<exists>ds. sortedConfObjects samplePlatform sampleRequireConf
               (pathAndRootsOf ''/srv/conf/apiregistry_decoders.json'' ''/srv''
                  ''conf/apiregistry_decoders.json''
                  (\<lambda>f. f = ''/apps/shop/conf/apiregistry_decoders.json'')
                  [(''blog'', ''/apps/blog''), (''shop'', ''/apps/shop'')]) = Inr ds
            \<and> sorted (map priority ds))"
proof -
  have ev: "loadSortedConfOjbects samplePlatform sampleRequireConf sampleRequireModule
     (pathAndRootsOf ''/srv/conf/apiregistry_decoders.json'' ''/srv''
        ''conf/apiregistry_decoders.json'' (\<lambda>f. f = ''/apps/shop/conf/apiregistry_decoders.json'')
        [(''blog'', ''/apps/blog''), (''shop'', ''/apps/shop'')])
     = Inr [\<lparr>conf_modulename = Some ''json_decoder.js'',
             impl = ''/srv/lib/apiregistry_extensions/json_decoder.js''\<rparr>,
            \<lparr>conf_modulename = Some ''csv_decoder.js'',
             impl = ''/apps/shop/lib/apiregistry_extensions/csv_decoder.js''\<rparr>,
            \<lparr>conf_modulename = Some ''xml_decoder.js'',
             impl = ''/apps/shop/lib/apiregistry_extensions/xml_decoder.js''\<rparr>,
            \<lparr>conf_modulename = Some ''urlencoded_decoder.js'',
             impl = ''/srv/lib/apiregistry_extensions/urlencoded_decoder.js''\<rparr>]"
    by code_simp
  from extension_chain_sorted_stable[OF ev] ev show ?thesis by blast
qed

end
